theory Spec2Isabelle
  imports Complex_Main
begin

section \<open>The retail checkout of ECommerceSystem.ts\<close>

text \<open>
  A shallow embedding of \<^verbatim>\<open>src/ECommerceSystem.ts\<close>. Conventions:
  \<^item> a TypeScript \<^verbatim>\<open>number\<close> that holds money or a weight is a \<^typ>\<open>real\<close>, and
    a \<^verbatim>\<open>number\<close> that counts units (stock, line quantity) is an \<^typ>\<open>int\<close>,
    negative values included, since the source never rejects them;
  \<^item> the shipping calculation, whose result the specification states as a value, is
    computed as the source computes it, in IEEE 754 binary64 arithmetic: every sum and
    product of \<^verbatim>\<open>calculateShippingFee\<close> is rounded to the nearest double, a tie to
    the even one, by \<open>double_of\<close>, and a weight written as a decimal literal is the
    double nearest to it. Overflow to infinity and NaN are not modelled. Prices,
    subtotals and balances are exact reals: the theorems about them say which amounts
    the source adds, subtracts and compares, and the rounding of those sums is not
    modelled;
  \<^item> a \<^verbatim>\<open>Date\<close> is its time value in milliseconds, an \<^typ>\<open>int\<close>; the clock read
    by \<^verbatim>\<open>new Date()\<close> is the parameter \<open>now\<close>;
  \<^item> \<^verbatim>\<open>Product\<close> objects are shared by reference between the catalog and the cart
    lines, so they live in a store from references to objects and a cart line holds a
    reference;
  \<^item> \<^verbatim>\<open>throw new Error(msg)\<close> is a value of type \<open>error\<close>, one constructor for
    each \<^verbatim>\<open>throw\<close> of the source; a method that mutates several objects returns the
    state it leaves behind together with its outcome, also when it throws;
  \<^item> \<^verbatim>\<open>console.log\<close> appends one entry to the console of the state; an entry
    carries the values interpolated into the printed line.
\<close>

subsection \<open>Errors\<close>

datatype error =
    NotEnoughStock            \<comment> \<open>"Not enough stock available" (Product.reduceQuantity)\<close>
  | InsufficientBalance       \<comment> \<open>"Insufficient balance" (Customer.deductBalance)\<close>
  | RequestedExceedsStock     \<comment> \<open>"Requested quantity exceeds available stock" (Cart.add)\<close>
  | TotalExceedsStock         \<comment> \<open>"Total quantity in cart exceeds available stock" (Cart.add)\<close>
  | EmptyCart                 \<comment> \<open>"Cart is empty" (checkout)\<close>
  | ProductExpired string     \<comment> \<open>"Product NAME is expired" (checkout)\<close>
  | OutOfStock string         \<comment> \<open>"Product NAME is out of stock" (checkout)\<close>
  | BalanceInsufficient       \<comment> \<open>"Customer's balance is insufficient" (checkout)\<close>

text \<open>
  The error names of the specification group them: its \<open>InsufficientStock\<close> is
  \<open>NotEnoughStock\<close> (stock reduction) and \<open>OutOfStock\<close> (checkout), its
  \<open>InsufficientBalance\<close> is \<open>InsufficientBalance\<close> (debit) and \<open>BalanceInsufficient\<close>
  (checkout), its \<open>ExceedsStock\<close> is \<open>RequestedExceedsStock\<close> and \<open>TotalExceedsStock\<close>.
\<close>

subsection \<open>Products\<close>

datatype Product =
    ExpirableProduct (getName: string) (getPrice: real) (getQuantity: int)
      (expiryDate: int) (requiresShipping: bool) (getWeight: real)
  | NonExpirableProduct (getName: string) (getPrice: real) (getQuantity: int)
      (requiresShipping: bool) (getWeight: real)

fun reduceQuantity :: "Product \<Rightarrow> int \<Rightarrow> error + Product" where
  "reduceQuantity (ExpirableProduct n p q e r w) amount =
     (if amount > q then Inl NotEnoughStock
      else Inr (ExpirableProduct n p (q - amount) e r w))"
| "reduceQuantity (NonExpirableProduct n p q r w) amount =
     (if amount > q then Inl NotEnoughStock
      else Inr (NonExpirableProduct n p (q - amount) r w))"

fun isExpired :: "int \<Rightarrow> Product \<Rightarrow> bool" where
  "isExpired now (ExpirableProduct n p q e r w) = (now > e)"
| "isExpired now (NonExpirableProduct n p q r w) = False"

type_synonym ref = nat

type_synonym store = "ref \<Rightarrow> Product"

subsection \<open>Cart lines and the customer\<close>

datatype CartItem = CartItem (getProduct: ref) (getItemQuantity: int)

definition getTotalPrice :: "store \<Rightarrow> CartItem \<Rightarrow> real" where
  "getTotalPrice h item = getPrice (h (getProduct item)) * of_int (getItemQuantity item)"

record Customer =
  name :: string
  balance :: real

definition deductBalance :: "Customer \<Rightarrow> real \<Rightarrow> error + Customer" where
  "deductBalance c amount =
     (if amount > balance c then Inl InsufficientBalance
      else Inr (c\<lparr>balance := balance c - amount\<rparr>))"

subsection \<open>The console\<close>

datatype entry =
    ShipmentNotice                 \<comment> \<open>"** Shipment notice **"\<close>
  | ShipmentItem string int        \<comment> \<open>name, Math.round(weight * 1000) "g"\<close>
  | TotalPackageWeight real        \<comment> \<open>"Total package weight", printed with toFixed(1), "kg"\<close>
  | CheckoutReceipt                \<comment> \<open>"** Checkout receipt **"\<close>
  | ReceiptItem int string int     \<comment> \<open>quantity "x", name, Math.round(line total)\<close>
  | Rule                           \<comment> \<open>"----------------------"\<close>
  | Subtotal int                   \<comment> \<open>"Subtotal", Math.round(subtotal)\<close>
  | Shipping int                   \<comment> \<open>"Shipping", Math.round(shippingFees)\<close>
  | Amount int                     \<comment> \<open>"Amount", Math.round(totalAmount)\<close>
  | BalanceAfterPayment real       \<comment> \<open>"Customer balance after payment:", printed with toFixed(2)\<close>

text \<open>\<^verbatim>\<open>Math.round\<close> rounds to the nearest integer, a tie towards plus infinity.\<close>

definition Math_round :: "real \<Rightarrow> int" where
  "Math_round x = \<lfloor>x + 1 / 2\<rfloor>"

subsection \<open>The state\<close>

record state =
  products :: store
  customer :: Customer
  cart :: "CartItem list"
  console :: "entry list"

subsection \<open>Cart\<close>

text \<open>\<^verbatim>\<open>Array.prototype.findIndex\<close>; \<open>None\<close> is the \<^verbatim>\<open>-1\<close> of the source.\<close>

fun findIndex :: "('a \<Rightarrow> bool) \<Rightarrow> 'a list \<Rightarrow> nat option" where
  "findIndex P [] = None"
| "findIndex P (x # xs) = (if P x then Some 0 else map_option Suc (findIndex P xs))"

definition add :: "ref \<Rightarrow> int \<Rightarrow> state \<Rightarrow> state \<times> (error + unit)" where
  "add product quantity s =
     (if quantity > getQuantity (products s product) then (s, Inl RequestedExceedsStock)
      else
        (case findIndex (\<lambda>item. getProduct item = product) (cart s) of
           Some existingItemIndex \<Rightarrow>
             (let existingItem = cart s ! existingItemIndex;
                  newQuantity = getItemQuantity existingItem + quantity
              in if newQuantity > getQuantity (products s product)
                 then (s, Inl TotalExceedsStock)
                 else (s\<lparr>cart := (cart s)[existingItemIndex := CartItem product newQuantity]\<rparr>,
                       Inr ()))
         | None \<Rightarrow> (s\<lparr>cart := cart s @ [CartItem product quantity]\<rparr>, Inr ())))"

definition isEmpty :: "CartItem list \<Rightarrow> bool" where
  "isEmpty items = (length items = 0)"

definition getSubtotal :: "store \<Rightarrow> CartItem list \<Rightarrow> real" where
  "getSubtotal h items = foldl (\<lambda>sum item. sum + getTotalPrice h item) 0 items"

subsection \<open>Double arithmetic\<close>

text \<open>
  \<open>rne\<close> rounds a real to the nearest integer, a tie to the even one. \<open>normalise m q\<close>
  rescales the magnitude \<open>m * 2 powi q\<close> until its significand \<open>m\<close> has 53 bits before
  the binary point, or the exponent has reached that of the subnormal doubles.
  \<open>double_of x\<close> is the double nearest to \<open>x\<close>.
\<close>

definition rne :: "real \<Rightarrow> int" where
  "rne r =
     (let f = \<lfloor>r\<rfloor>; d = r - of_int f
      in if d < 1 / 2 then f else if 1 / 2 < d then f + 1
         else if even f then f else f + 1)"

function normalise :: "real \<Rightarrow> int \<Rightarrow> real \<times> int" where
  "normalise m q =
     (if 2 ^ 53 \<le> m then normalise (m / 2) (q + 1)
      else if m < 2 ^ 52 \<and> - 1074 < q then normalise (2 * m) (q - 1)
      else (m, q))"
  by pat_completeness auto
termination
proof (relation "measures [\<lambda>(m, q). if 2 ^ 53 \<le> m then nat \<lceil>m\<rceil> else 0,
                           \<lambda>(m, q). nat (q + 1074)]", goal_cases)
  case 1
  then show ?case by simp
next
  case (2 m q)
  have "\<lceil>m / 2\<rceil> < \<lceil>m\<rceil>" if "2 ^ 53 \<le> m"
  proof -
    from that have "m / 2 + 1 \<le> m" by simp
    then show ?thesis by linarith
  qed
  with 2 show ?case by auto
next
  case (3 m q)
  then show ?case by auto
qed

definition double_of :: "real \<Rightarrow> real" where
  "double_of x =
     (let (m, q) = normalise \<bar>x\<bar> 0 in sgn x * of_int (rne m) * 2 powi q)"

text \<open>The recursive equation of \<open>normalise\<close> is unfolded only where a proof asks for it.\<close>

declare normalise.simps [simp del]

subsection \<open>Shipping\<close>

datatype ShippableItem = ShippableItem (getShipName: string) (getShipWeight: real)

definition SHIPPING_RATE_PER_KG :: real where
  "SHIPPING_RATE_PER_KG = 30"

text \<open>
  The constant \<^verbatim>\<open>totalWeight\<close> of \<^verbatim>\<open>calculateShippingFee\<close>: the weights are added
  from the left, starting from 0, each sum rounded.
\<close>

definition totalWeight :: "ShippableItem list \<Rightarrow> real" where
  "totalWeight items = foldl (\<lambda>sum item. double_of (sum + getShipWeight item)) 0 items"

definition calculateShippingFee :: "ShippableItem list \<Rightarrow> real \<times> entry list" where
  "calculateShippingFee items =
     (if length items = 0 then (0, [])
      else
        (of_int \<lceil>double_of (totalWeight items * SHIPPING_RATE_PER_KG)\<rceil>,
         [ShipmentNotice]
         @ map (\<lambda>item. ShipmentItem (getShipName item)
                 (Math_round (double_of (getShipWeight item * 1000)))) items
         @ [TotalPackageWeight (totalWeight items)]))"

subsection \<open>Checkout\<close>

text \<open>The first loop of \<^verbatim>\<open>checkout\<close>: the first line that fails stops it.\<close>

fun validateItems :: "int \<Rightarrow> store \<Rightarrow> CartItem list \<Rightarrow> error option" where
  "validateItems now h [] = None"
| "validateItems now h (item # items) =
     (let product = h (getProduct item)
      in if isExpired now product then Some (ProductExpired (getName product))
         else if getQuantity product < getItemQuantity item
              then Some (OutOfStock (getName product))
         else validateItems now h items)"

text \<open>
  The second loop: a line whose product requires shipping pushes one unit for each
  \<open>i\<close> from 0 below its quantity, so none when the quantity is not positive.
\<close>

fun collectShippable :: "store \<Rightarrow> CartItem list \<Rightarrow> ShippableItem list" where
  "collectShippable h [] = []"
| "collectShippable h (item # items) =
     (let product = h (getProduct item)
      in (if requiresShipping product
          then replicate (nat (getItemQuantity item))
                 (ShippableItem (getName product) (getWeight product))
          else [])
         @ collectShippable h items)"

text \<open>
  The third loop: each line reduces the stock of its product in the store; a throw of
  \<^verbatim>\<open>reduceQuantity\<close> leaves the reductions made so far.
\<close>

fun reduceItems :: "store \<Rightarrow> CartItem list \<Rightarrow> store \<times> error option" where
  "reduceItems h [] = (h, None)"
| "reduceItems h (item # items) =
     (case reduceQuantity (h (getProduct item)) (getItemQuantity item) of
        Inl e \<Rightarrow> (h, Some e)
      | Inr p \<Rightarrow> reduceItems (h(getProduct item := p)) items)"

definition receipt :: "store \<Rightarrow> Customer \<Rightarrow> CartItem list \<Rightarrow> real \<Rightarrow> real \<Rightarrow> real \<Rightarrow> entry list" where
  "receipt h c items subtotal shippingFees totalAmount =
     [CheckoutReceipt]
     @ map (\<lambda>item. ReceiptItem (getItemQuantity item) (getName (h (getProduct item)))
             (Math_round (getTotalPrice h item))) items
     @ [Rule, Subtotal (Math_round subtotal), Shipping (Math_round shippingFees),
        Amount (Math_round totalAmount), BalanceAfterPayment (balance c)]"

definition checkout :: "int \<Rightarrow> state \<Rightarrow> state \<times> (error + unit)" where
  "checkout now s =
     (if isEmpty (cart s) then (s, Inl EmptyCart)
      else
        (case validateItems now (products s) (cart s) of
           Some e \<Rightarrow> (s, Inl e)
         | None \<Rightarrow>
             (let subtotal = getSubtotal (products s) (cart s);
                  shippableItems = collectShippable (products s) (cart s);
                  (shippingFees, notice) = calculateShippingFee shippableItems;
                  totalAmount = subtotal + shippingFees;
                  s1 = s\<lparr>console := console s @ notice\<rparr>
              in if balance (customer s1) < totalAmount then (s1, Inl BalanceInsufficient)
                 else
                   (case deductBalance (customer s1) totalAmount of
                      Inl e \<Rightarrow> (s1, Inl e)
                    | Inr c \<Rightarrow>
                        (let s2 = s1\<lparr>customer := c\<rparr>
                         in case reduceItems (products s2) (cart s2) of
                              (h, Some e) \<Rightarrow> (s2\<lparr>products := h\<rparr>, Inl e)
                            | (h, None) \<Rightarrow>
                                (s2\<lparr>products := h,
                                    console := console s2
                                      @ receipt h c (cart s2) subtotal shippingFees totalAmount\<rparr>,
                                 Inr ()))))))"

subsection \<open>The catalog of the end-to-end scenario\<close>

text \<open>
  Product A (reference 0): price 100, stock 10, non-expiring, no shipping. Product B
  (reference 1): price 150, stock 15, non-expiring, shipped, 0.7 kg a unit, that is the
  double nearest to 0.7. The customer holds \<open>funds\<close> and the cart holds \<open>items\<close>.
\<close>

definition productA :: Product where
  "productA = NonExpirableProduct ''A'' 100 10 False 0"

definition productB :: Product where
  "productB = NonExpirableProduct ''B'' 150 15 True (double_of (7 / 10))"

definition catalog :: store where
  "catalog = (\<lambda>_. productA)(1 := productB)"

definition scenario :: "real \<Rightarrow> CartItem list \<Rightarrow> state" where
  "scenario funds items =
     \<lparr>products = catalog, customer = \<lparr>name = ''Customer'', balance = funds\<rparr>,
      cart = items, console = []\<rparr>"

text \<open>The lines of a cart that refer to the product at \<open>r\<close>.\<close>

definition referencing :: "ref \<Rightarrow> CartItem list \<Rightarrow> CartItem list" where
  "referencing r items = filter (\<lambda>item. getProduct item = r) items"



section \<open>Auxiliary facts\<close>

subsection \<open>The leaf operations\<close>

lemma reduceQuantity_Inl: "reduceQuantity p amount = Inl e \<Longrightarrow> e = NotEnoughStock"
  by (cases p) (auto split: if_splits)

lemma reduceQuantity_Inr:
  assumes "reduceQuantity p amount = Inr p'"
  shows "amount \<le> getQuantity p" and "getQuantity p' = getQuantity p - amount"
    and "getName p' = getName p" and "getPrice p' = getPrice p"
    and "requiresShipping p' = requiresShipping p" and "getWeight p' = getWeight p"
  using assms by (cases p; auto split: if_splits)+


lemma deductBalance_Inl: "deductBalance c amount = Inl e \<Longrightarrow> e = InsufficientBalance"
  by (auto simp: deductBalance_def split: if_splits)

subsection \<open>Rounding to a double\<close>

lemma rne_of_int: "rne (of_int n) = n"
  by (simp add: rne_def)

lemma rne_bounds: "\<lfloor>r\<rfloor> \<le> rne r" "rne r \<le> \<lfloor>r\<rfloor> + 1"
  by (simp_all add: rne_def Let_def)

lemma rne_mono: "r \<le> s \<Longrightarrow> rne r \<le> rne s"
proof -
  assume le: "r \<le> s"
  then have f: "\<lfloor>r\<rfloor> \<le> \<lfloor>s\<rfloor>" by (rule floor_mono)
  show ?thesis
  proof (cases "\<lfloor>r\<rfloor> = \<lfloor>s\<rfloor>")
    case True
    with le show ?thesis by (auto simp: rne_def Let_def)
  next
    case False
    with f have "\<lfloor>r\<rfloor> + 1 \<le> \<lfloor>s\<rfloor>" by simp
    with rne_bounds(2)[of r] rne_bounds(1)[of s] show ?thesis by linarith
  qed
qed

lemma rne_nonneg: "0 \<le> r \<Longrightarrow> 0 \<le> rne r"
  using rne_mono[of 0 r] rne_of_int[of 0] by simp

text \<open>What \<open>normalise\<close> returns: the same magnitude, rescaled.\<close>

lemma normalise_result:
  assumes "normalise m q = (m', q')" and "0 \<le> m" and "- 1074 \<le> q"
  shows "m' * 2 powi q' = m * 2 powi q \<and> 0 \<le> m' \<and> m' < 2 ^ 53 \<and> - 1074 \<le> q'
         \<and> (2 ^ 52 \<le> m' \<or> q' = - 1074)"
  using assms
proof (induction m q rule: normalise.induct)
  case (1 m q)
  show ?case
  proof (cases "2 ^ 53 \<le> m")
    case True
    with "1.prems" have "normalise (m / 2) (q + 1) = (m', q')"
      by (simp add: normalise.simps[of m q])
    from "1.IH"(1)[OF True this] "1.prems"(2,3)
    have "m' * 2 powi q' = m / 2 * 2 powi (q + 1) \<and> 0 \<le> m' \<and> m' < 2 ^ 53 \<and> - 1074 \<le> q'
         \<and> (2 ^ 52 \<le> m' \<or> q' = - 1074)" by simp
    then show ?thesis by (simp add: power_int_add)
  next
    case big: False
    show ?thesis
    proof (cases "m < 2 ^ 52 \<and> - 1074 < q")
      case True
      with big "1.prems" have "normalise (2 * m) (q - 1) = (m', q')"
        by (simp add: normalise.simps[of m q])
      from "1.IH"(2)[OF big True this] "1.prems"(2) True
      have "m' * 2 powi q' = 2 * m * 2 powi (q - 1) \<and> 0 \<le> m' \<and> m' < 2 ^ 53 \<and> - 1074 \<le> q'
         \<and> (2 ^ 52 \<le> m' \<or> q' = - 1074)" by simp
      then show ?thesis by (simp add: power_int_diff)
    next
      case False
      then have "normalise m q = (m, q)"
        using big by (subst normalise.simps) auto
      with "1.prems" have "m' = m" "q' = q"
        by simp_all
      with big False "1.prems"(2,3) show ?thesis by auto
    qed
  qed
qed

lemma double_of_minus: "double_of (- x) = - double_of x"
  by (simp add: double_of_def sgn_minus split: prod.splits)

lemma double_of_nonneg:
  assumes "0 \<le> x"
  shows "0 \<le> double_of x"
proof -
  obtain m q where n: "normalise \<bar>x\<bar> 0 = (m, q)"
    by (cases "normalise \<bar>x\<bar> 0")
  from normalise_result[OF n] have "0 \<le> m" by simp
  then have "0 \<le> rne m" by (rule rne_nonneg)
  with assms n show ?thesis
    by (simp add: double_of_def sgn_real_def)
qed

lemma double_of_mono_nonneg:
  assumes "0 \<le> x" and "x \<le> y"
  shows "double_of x \<le> double_of y"
proof -
  obtain m1 q1 where n1: "normalise \<bar>x\<bar> 0 = (m1, q1)"
    by (cases "normalise \<bar>x\<bar> 0")
  obtain m2 q2 where n2: "normalise \<bar>y\<bar> 0 = (m2, q2)"
    by (cases "normalise \<bar>y\<bar> 0")
  from normalise_result[OF n1] assms
  have x: "m1 * 2 powi q1 = x" and m1: "0 \<le> m1" "m1 < 2 ^ 53" and q1: "- 1074 \<le> q1"
    and b1: "2 ^ 52 \<le> m1 \<or> q1 = - 1074"
    by simp_all
  from normalise_result[OF n2] assms
  have y: "m2 * 2 powi q2 = y" and m2: "0 \<le> m2" "m2 < 2 ^ 53" and q2: "- 1074 \<le> q2"
    and b2: "2 ^ 52 \<le> m2 \<or> q2 = - 1074"
    by simp_all
  have pos: "0 < (2::real) powi q" for q by simp
  show ?thesis
  proof (cases "x = 0")
    case True
    then have "double_of x = 0"
      by (simp add: double_of_def split: prod.splits)
    with double_of_nonneg[of y] assms show ?thesis by simp
  next
    case False
    with assms have xpos: "0 < x" and ypos: "0 < y" by simp_all
    have dx: "double_of x = of_int (rne m1) * 2 powi q1"
      using xpos n1 by (simp add: double_of_def)
    have dy: "double_of y = of_int (rne m2) * 2 powi q2"
      using ypos n2 by (simp add: double_of_def)
    have q12: "q1 \<le> q2"
    proof (rule ccontr)
      assume "\<not> q1 \<le> q2"
      then have lt: "q2 + 1 \<le> q1" by simp
      with q2 b1 have big: "2 ^ 52 \<le> m1" by auto
      have "y < 2 ^ 53 * 2 powi q2"
        using m2(2) pos[of q2] y by (metis mult_strict_right_mono)
      also have "\<dots> = 2 ^ 52 * 2 powi (q2 + 1)"
        by (simp add: power_int_add)
      also have "\<dots> \<le> 2 ^ 52 * 2 powi q1"
        using lt by (simp add: power_int_increasing)
      also have "\<dots> \<le> m1 * 2 powi q1"
        using big pos[of q1] by (simp add: mult_right_mono)
      finally show False using x assms by simp
    qed
    show ?thesis
    proof (cases "q1 = q2")
      case True
      with x y assms(2) pos[of q2] have "m1 \<le> m2"
        by (metis mult_le_cancel_right_pos)
      then have "rne m1 \<le> rne m2" by (rule rne_mono)
      then have "(of_int (rne m1) :: real) \<le> of_int (rne m2)" by simp
      with True pos[of q2] show ?thesis
        unfolding dx dy by (simp add: mult_right_mono)
    next
      case False
      with q12 have lt: "q1 + 1 \<le> q2" by simp
      with q1 b2 have big: "2 ^ 52 \<le> m2" by auto
      have "rne m1 \<le> rne (of_int (2 ^ 53))"
        using m1(2) by (intro rne_mono) simp
      then have "rne m1 \<le> 2 ^ 53" by (simp only: rne_of_int)
      then have "(of_int (rne m1) :: real) \<le> 2 ^ 53"
        by (metis of_int_le_iff of_int_numeral of_int_power)
      then have "double_of x \<le> 2 ^ 53 * 2 powi q1"
        unfolding dx using pos[of q1] by (simp add: mult_right_mono)
      also have "\<dots> = 2 ^ 52 * 2 powi (q1 + 1)"
        by (simp add: power_int_add)
      also have "\<dots> \<le> 2 ^ 52 * 2 powi q2"
        using lt by (simp add: power_int_increasing)
      also have "\<dots> \<le> of_int (rne m2) * 2 powi q2"
      proof -
        have "rne (of_int (2 ^ 52)) \<le> rne m2"
          using big by (intro rne_mono) simp
        then have "2 ^ 52 \<le> rne m2" by (simp only: rne_of_int)
        then have "(2 ^ 52 :: real) \<le> of_int (rne m2)"
          by (metis of_int_le_iff of_int_numeral of_int_power)
        with pos[of q2] show ?thesis by (simp add: mult_right_mono)
      qed
      finally show ?thesis unfolding dy .
    qed
  qed
qed

lemma double_of_mono: "x \<le> y \<Longrightarrow> double_of x \<le> double_of y"
proof -
  assume le: "x \<le> y"
  consider "0 \<le> x" | "x < 0" "0 \<le> y" | "y < 0" by linarith
  then show ?thesis
  proof cases
    case 1
    from 1 le show ?thesis by (rule double_of_mono_nonneg)
  next
    case 2
    from 2(1) double_of_nonneg[of "- x"] have "double_of x \<le> 0"
      by (simp add: double_of_minus)
    with double_of_nonneg[OF 2(2)] show ?thesis by simp
  next
    case 3
    with le have "0 \<le> - y" "- y \<le> - x" by simp_all
    then have "double_of (- y) \<le> double_of (- x)" by (rule double_of_mono_nonneg)
    then show ?thesis by (simp add: double_of_minus)
  qed
qed

lemma double_of_0: "double_of 0 = 0"
  by (simp add: double_of_def split: prod.splits)

lemma fee_value:
  "fst (calculateShippingFee items)
   = of_int \<lceil>double_of (totalWeight items * SHIPPING_RATE_PER_KG)\<rceil>"
  by (cases items) (simp_all add: calculateShippingFee_def totalWeight_def double_of_0)

text \<open>The doubles of the scenario and of the counterexamples, evaluated.\<close>

lemma double_of_literals:
  "double_of (1 / 10) = 3602879701896397 / 36028797018963968"
  "double_of (1 / 5) = 3602879701896397 / 18014398509481984"
  "double_of (3 / 10) = 5404319552844595 / 18014398509481984"
  "double_of (7 / 10) = 3152519739159347 / 4503599627370496"
  by (simp_all add: double_of_def normalise.simps rne_def)

subsection \<open>The three loops of checkout\<close>

lemma validateItems_Some:
  "validateItems now h items = Some e \<Longrightarrow>
   (\<exists>n. e = ProductExpired n) \<or> (\<exists>n. e = OutOfStock n)"
  by (induction now h items rule: validateItems.induct) (auto simp: Let_def split: if_splits)

lemma reduceItems_Some: "reduceItems h items = (h', Some e) \<Longrightarrow> e = NotEnoughStock"
  by (induction h items rule: reduceItems.induct)
     (auto split: sum.splits dest: reduceQuantity_Inl)





lemma reduceItems_nonneg:
  "reduceItems h items = (h', res) \<Longrightarrow> \<forall>r. 0 \<le> getQuantity (h r) \<Longrightarrow> 0 \<le> getQuantity (h' r)"
proof (induction h items arbitrary: r rule: reduceItems.induct)
  case (1 h)
  then show ?case by simp
next
  case (2 h item items)
  show ?case
  proof (cases "reduceQuantity (h (getProduct item)) (getItemQuantity item)")
    case (Inl e)
    with 2 show ?thesis by simp
  next
    case (Inr p)
    with 2 have red: "reduceItems (h(getProduct item := p)) items = (h', res)" by simp
    from reduceQuantity_Inr(1,2)[OF Inr] have "0 \<le> getQuantity p" by simp
    with "2.prems"(2) have "\<forall>r. 0 \<le> getQuantity ((h(getProduct item := p)) r)" by simp
    from "2.IH"[OF Inr red this] show ?thesis .
  qed
qed

subsection \<open>The branches of checkout\<close>

lemma checkout_empty: "cart s = [] \<Longrightarrow> checkout now s = (s, Inl EmptyCart)"
  by (simp add: checkout_def isEmpty_def)

lemma checkout_invalid:
  "cart s \<noteq> [] \<Longrightarrow> validateItems now (products s) (cart s) = Some e \<Longrightarrow> checkout now s = (s, Inl e)"
  by (simp add: checkout_def isEmpty_def)

lemma checkout_unaffordable:
  assumes "cart s \<noteq> []" and "validateItems now (products s) (cart s) = None"
    and "calculateShippingFee (collectShippable (products s) (cart s)) = (fee, notice)"
    and "balance (customer s) < getSubtotal (products s) (cart s) + fee"
  shows "checkout now s = (s\<lparr>console := console s @ notice\<rparr>, Inl BalanceInsufficient)"
  using assms by (simp add: checkout_def isEmpty_def)

lemma checkout_commit:
  assumes "cart s \<noteq> []" and "validateItems now (products s) (cart s) = None"
    and "calculateShippingFee (collectShippable (products s) (cart s)) = (fee, notice)"
    and "\<not> balance (customer s) < getSubtotal (products s) (cart s) + fee"
    and "reduceItems (products s) (cart s) = (h, r)"
  shows "checkout now s =
    (case r of
       None \<Rightarrow>
         (s\<lparr>products := h,
            customer := (customer s)\<lparr>balance := balance (customer s)
                          - (getSubtotal (products s) (cart s) + fee)\<rparr>,
            console := console s @ notice
              @ receipt h ((customer s)\<lparr>balance := balance (customer s)
                          - (getSubtotal (products s) (cart s) + fee)\<rparr>) (cart s)
                  (getSubtotal (products s) (cart s)) fee
                  (getSubtotal (products s) (cart s) + fee)\<rparr>, Inr ())
     | Some e \<Rightarrow>
         (s\<lparr>products := h,
            customer := (customer s)\<lparr>balance := balance (customer s)
                          - (getSubtotal (products s) (cart s) + fee)\<rparr>,
            console := console s @ notice\<rparr>, Inl e))"
  using assms by (simp add: checkout_def isEmpty_def deductBalance_def Let_def split: option.splits)

lemma checkout_nonneg:
  assumes q: "\<forall>r. 0 \<le> getQuantity (products s r)" and b: "0 \<le> balance (customer s)"
  shows "(\<forall>r. 0 \<le> getQuantity (products (fst (checkout now s)) r))
         \<and> 0 \<le> balance (customer (fst (checkout now s)))"
proof (cases "cart s = []")
  case True
  with assms show ?thesis by (simp add: checkout_empty)
next
  case ne: False
  show ?thesis
  proof (cases "validateItems now (products s) (cart s)")
    case (Some e)
    with ne assms show ?thesis by (simp add: checkout_invalid)
  next
    case None
    obtain fee notice where f: "calculateShippingFee (collectShippable (products s) (cart s)) = (fee, notice)"
      by (cases "calculateShippingFee (collectShippable (products s) (cart s))")
    show ?thesis
    proof (cases "balance (customer s) < getSubtotal (products s) (cart s) + fee")
      case True
      from checkout_unaffordable[OF ne None f True] assms show ?thesis by simp
    next
      case False
      obtain h res where r: "reduceItems (products s) (cart s) = (h, res)"
        by (cases "reduceItems (products s) (cart s)")
      from reduceItems_nonneg[OF r q] have "\<forall>r. 0 \<le> getQuantity (h r)" by simp
      with checkout_commit[OF ne None f False r] False show ?thesis
        by (cases res) simp_all
    qed
  qed
qed

subsection \<open>The scenario, evaluated\<close>

lemma scenario_fields:
  "products (scenario funds items) = catalog" "cart (scenario funds items) = items"
  "balance (customer (scenario funds items)) = funds" "console (scenario funds items) = []"
  "customer (scenario funds items) = \<lparr>name = ''Customer'', balance = funds\<rparr>"
  by (simp_all add: scenario_def)

lemma catalog_at: "catalog 0 = productA" "catalog 1 = productB"
  by (simp_all add: catalog_def)

lemma scenario_validateItems: "validateItems now catalog [CartItem 0 2, CartItem 1 1] = None"
  by (simp add: catalog_def productA_def productB_def)

lemma scenario_getSubtotal: "getSubtotal catalog [CartItem 0 2, CartItem 1 1] = 350"
  by (simp add: getSubtotal_def getTotalPrice_def catalog_def productA_def productB_def)

lemma scenario_collectShippable:
  "collectShippable catalog [CartItem 0 2, CartItem 1 1] = [ShippableItem ''B'' (double_of (7 / 10))]"
  by (simp add: catalog_def productA_def productB_def)

lemma scenario_calculateShippingFee:
  "calculateShippingFee [ShippableItem ''B'' (double_of (7 / 10))]
   = (21, [ShipmentNotice, ShipmentItem ''B'' 700, TotalPackageWeight (double_of (7 / 10))])"
  unfolding double_of_literals
  apply (simp add: calculateShippingFee_def totalWeight_def SHIPPING_RATE_PER_KG_def)
  apply (simp add: double_of_def normalise.simps rne_def Math_round_def)
  done

lemma scenario_reduceItems:
  "reduceItems catalog [CartItem 0 2, CartItem 1 1]
   = (catalog(0 := NonExpirableProduct ''A'' 100 8 False 0,
              1 := NonExpirableProduct ''B'' 150 14 True (double_of (7 / 10))), None)"
  by (simp add: catalog_def productA_def productB_def)

lemma scenario_checkout:
  "checkout now (scenario 1000 [CartItem 0 2, CartItem 1 1]) =
     (\<lparr>products = catalog(0 := NonExpirableProduct ''A'' 100 8 False 0,
                          1 := NonExpirableProduct ''B'' 150 14 True (double_of (7 / 10))),
       customer = \<lparr>name = ''Customer'', balance = 629\<rparr>,
       cart = [CartItem 0 2, CartItem 1 1],
       console = [ShipmentNotice, ShipmentItem ''B'' 700, TotalPackageWeight (double_of (7 / 10)),
                  CheckoutReceipt, ReceiptItem 2 ''A'' 200, ReceiptItem 1 ''B'' 150, Rule,
                  Subtotal 350, Shipping 21, Amount 371, BalanceAfterPayment 629]\<rparr>,
      Inr ())"
proof -
  let ?s = "scenario 1000 [CartItem 0 2, CartItem 1 1]"
  note f = scenario_fields [of 1000 "[CartItem 0 2, CartItem 1 1]"]
  have 1: "cart ?s \<noteq> []"
    unfolding f by simp
  have 2: "validateItems now (products ?s) (cart ?s) = None"
    unfolding f by (rule scenario_validateItems)
  have 3: "calculateShippingFee (collectShippable (products ?s) (cart ?s))
           = (21, [ShipmentNotice, ShipmentItem ''B'' 700, TotalPackageWeight (double_of (7 / 10))])"
    unfolding f scenario_collectShippable by (rule scenario_calculateShippingFee)
  have 4: "\<not> balance (customer ?s) < getSubtotal (products ?s) (cart ?s) + 21"
    unfolding f scenario_getSubtotal by simp
  have 5: "reduceItems (products ?s) (cart ?s)
           = (catalog(0 := NonExpirableProduct ''A'' 100 8 False 0,
                      1 := NonExpirableProduct ''B'' 150 14 True (double_of (7 / 10))), None)"
    unfolding f by (rule scenario_reduceItems)
  have 6: "balance (customer ?s) - (getSubtotal (products ?s) (cart ?s) + 21) = 629"
    "getSubtotal (products ?s) (cart ?s) + 21 = 371"
    unfolding f scenario_getSubtotal by simp_all
  show ?thesis
    unfolding checkout_commit [OF 1 2 3 4 5] 6
    unfolding f scenario_getSubtotal
    by (simp add: scenario_def receipt_def Math_round_def getTotalPrice_def)
qed

lemma scenario_checkout_300:
  "checkout now (scenario 300 [CartItem 0 2, CartItem 1 1]) =
     ((scenario 300 [CartItem 0 2, CartItem 1 1])
        \<lparr>console := [ShipmentNotice, ShipmentItem ''B'' 700, TotalPackageWeight (double_of (7 / 10))]\<rparr>,
      Inl BalanceInsufficient)"
proof -
  let ?s = "scenario 300 [CartItem 0 2, CartItem 1 1]"
  note f = scenario_fields [of 300 "[CartItem 0 2, CartItem 1 1]"]
  have 1: "cart ?s \<noteq> []"
    unfolding f by simp
  have 2: "validateItems now (products ?s) (cart ?s) = None"
    unfolding f by (rule scenario_validateItems)
  have 3: "calculateShippingFee (collectShippable (products ?s) (cart ?s))
           = (21, [ShipmentNotice, ShipmentItem ''B'' 700, TotalPackageWeight (double_of (7 / 10))])"
    unfolding f scenario_collectShippable by (rule scenario_calculateShippingFee)
  have 4: "balance (customer ?s) < getSubtotal (products ?s) (cart ?s) + 21"
    unfolding f scenario_getSubtotal by simp
  show ?thesis
    unfolding checkout_unaffordable [OF 1 2 3 4] by (simp add: scenario_def)
qed

subsection \<open>Validation and commit\<close>



lemma validateItems_cong:
  "\<forall>item\<in>set items. h' (getProduct item) = h (getProduct item) \<Longrightarrow>
   validateItems now h' items = validateItems now h items"
  by (induction now h items rule: validateItems.induct) (simp_all add: Let_def)

lemma reduceItems_succeeds:
  "validateItems now h items = None \<Longrightarrow> distinct (map getProduct items) \<Longrightarrow>
   snd (reduceItems h items) = None"
proof (induction items arbitrary: h)
  case Nil
  then show ?case by simp
next
  case (Cons item items)
  from Cons.prems(1) have ok: "getItemQuantity item \<le> getQuantity (h (getProduct item))"
    and rest: "validateItems now h items = None"
    by (simp_all add: Let_def split: if_splits)
  from ok obtain p where p: "reduceQuantity (h (getProduct item)) (getItemQuantity item) = Inr p"
    by (cases "h (getProduct item)") auto
  from Cons.prems(2) have "\<forall>x\<in>set items. getProduct x \<noteq> getProduct item"
    by (metis distinct.simps(2) imageI list.simps(9) set_map)
  then have "validateItems now (h(getProduct item := p)) items = validateItems now h items"
    by (intro validateItems_cong) simp
  with rest have v: "validateItems now (h(getProduct item := p)) items = None"
    by (simp only:)
  from Cons.prems(2) have d: "distinct (map getProduct items)" by simp
  have "reduceItems h (item # items) = reduceItems (h(getProduct item := p)) items"
    by (simp add: p)
  with Cons.IH[OF v d] show ?case by (simp only:)
qed



lemma checkout_succeeds:
  assumes ne: "cart s \<noteq> []" and val: "validateItems now (products s) (cart s) = None"
    and aff: "\<not> balance (customer s) < getSubtotal (products s) (cart s)
            + fst (calculateShippingFee (collectShippable (products s) (cart s)))"
    and d: "distinct (map getProduct (cart s))"
  shows "snd (checkout now s) = Inr ()"
proof -
  obtain fee notice where
    f: "calculateShippingFee (collectShippable (products s) (cart s)) = (fee, notice)"
    by (cases "calculateShippingFee (collectShippable (products s) (cart s))")
  obtain h res where r: "reduceItems (products s) (cart s) = (h, res)"
    by (cases "reduceItems (products s) (cart s)")
  from reduceItems_succeeds[OF val d] r have res: "res = None" by simp
  from aff f have "\<not> balance (customer s) < getSubtotal (products s) (cart s) + fee"
    by simp
  from checkout_commit[OF ne val f this r] res show ?thesis by simp
qed

lemma checkout_failure_distinct:
  assumes run: "checkout now s = (s', Inl e)" and d: "distinct (map getProduct (cart s))"
  shows "e = EmptyCart \<or> (\<exists>n. e = ProductExpired n) \<or> (\<exists>n. e = OutOfStock n)
         \<or> e = BalanceInsufficient"
proof (cases "cart s = []")
  case True
  with run show ?thesis by (simp add: checkout_empty)
next
  case ne: False
  show ?thesis
  proof (cases "validateItems now (products s) (cart s)")
    case (Some e')
    with run ne have "e = e'" by (simp add: checkout_invalid)
    with validateItems_Some[OF Some] show ?thesis by blast
  next
    case None
    show ?thesis
    proof (cases "balance (customer s) < getSubtotal (products s) (cart s)
            + fst (calculateShippingFee (collectShippable (products s) (cart s)))")
      case True
      obtain fee notice where
        f: "calculateShippingFee (collectShippable (products s) (cart s)) = (fee, notice)"
        by (cases "calculateShippingFee (collectShippable (products s) (cart s))")
      with True have "balance (customer s) < getSubtotal (products s) (cart s) + fee"
        by simp
      from checkout_unaffordable [OF ne None f this] run show ?thesis by simp
    next
      case False
      from checkout_succeeds[OF ne None False d] run show ?thesis by simp
    qed
  qed
qed

subsection \<open>Cart.add\<close>

lemma findIndex_None: "findIndex P xs = None \<longleftrightarrow> (\<forall>x\<in>set xs. \<not> P x)"
  by (induction xs) auto

lemma findIndex_Some:
  "findIndex P xs = Some i \<Longrightarrow> i < length xs \<and> P (xs ! i) \<and> (\<forall>j<i. \<not> P (xs ! j))"
proof (induction xs arbitrary: i)
  case Nil
  then show ?case by simp
next
  case (Cons x xs)
  show ?case
  proof (cases "P x")
    case True
    with Cons.prems show ?thesis by simp
  next
    case False
    with Cons.prems obtain k where k: "findIndex P xs = Some k" and i: "i = Suc k" by auto
    from Cons.IH[OF k] False i show ?thesis by (auto simp: nth_Cons split: nat.splits)
  qed
qed

lemma findIndex_absent:
  "product \<notin> getProduct ` set items \<Longrightarrow>
   findIndex (\<lambda>item. getProduct item = product) items = None"
  by (auto simp: findIndex_None)

lemma findIndex_append_new:
  "product \<notin> getProduct ` set items \<Longrightarrow>
   findIndex (\<lambda>item. getProduct item = product) (items @ [CartItem product q])
   = Some (length items)"
  by (induction items) auto

lemma add_absent:
  assumes "product \<notin> getProduct ` set (cart s)"
  shows "add product quantity s =
     (if quantity > getQuantity (products s product) then (s, Inl RequestedExceedsStock)
      else (s\<lparr>cart := cart s @ [CartItem product quantity]\<rparr>, Inr ()))"
  by (simp add: add_def findIndex_absent[OF assms])

lemma add_present:
  assumes "findIndex (\<lambda>item. getProduct item = product) (cart s) = Some i"
  shows "add product quantity s =
     (if quantity > getQuantity (products s product) then (s, Inl RequestedExceedsStock)
      else if getItemQuantity (cart s ! i) + quantity > getQuantity (products s product)
      then (s, Inl TotalExceedsStock)
      else (s\<lparr>cart := (cart s)[i := CartItem product (getItemQuantity (cart s ! i) + quantity)]\<rparr>,
            Inr ()))"
  by (simp add: add_def assms Let_def)

lemma add_failure:
  "snd (add product quantity s) = Inl e \<Longrightarrow>
   fst (add product quantity s) = s \<and> (e = RequestedExceedsStock \<or> e = TotalExceedsStock)"
  by (auto simp: add_def Let_def split: if_splits option.splits)

lemma add_twice:
  assumes absent: "product \<notin> getProduct ` set (cart s)"
    and ok: "snd (add product q1 s) = Inr ()"
      "snd (add product q2 (fst (add product q1 s))) = Inr ()"
  shows "fst (add product q2 (fst (add product q1 s)))
         = s\<lparr>cart := cart s @ [CartItem product (q1 + q2)]\<rparr>"
proof -
  let ?s1 = "s\<lparr>cart := cart s @ [CartItem product q1]\<rparr>"
  from ok(1) have 1: "add product q1 s = (?s1, Inr ())"
    by (simp add: add_absent[OF absent] split: if_splits)
  have i: "findIndex (\<lambda>item. getProduct item = product) (cart ?s1) = Some (length (cart s))"
    using findIndex_append_new[OF absent] by simp
  from ok(2) show ?thesis
    unfolding 1 fst_conv add_present[OF i] by (simp split: if_splits)
qed

lemma add_keeps_distinct:
  assumes "distinct (map getProduct (cart s))"
  shows "distinct (map getProduct (cart (fst (add product quantity s))))"
proof (cases "findIndex (\<lambda>item. getProduct item = product) (cart s)")
  case None
  then have "product \<notin> getProduct ` set (cart s)" by (auto simp: findIndex_None)
  with assms show ?thesis by (simp add: add_absent)
next
  case (Some i)
  from findIndex_Some[OF Some] have i: "i < length (cart s)"
    and p: "getProduct (cart s ! i) = product"
    by simp_all
  have "map getProduct ((cart s)[i := CartItem product q]) = map getProduct (cart s)" for q
    using i p by (simp add: map_update list_update_same_conv)
  with assms show ?thesis by (simp add: add_present[OF Some])
qed

lemma checkout_nonempty_not_EmptyCart:
  "cart s \<noteq> [] \<Longrightarrow> snd (checkout now s) \<noteq> Inl EmptyCart"
  by (auto simp: checkout_def isEmpty_def Let_def
      split: if_splits option.splits prod.splits sum.splits
      dest: reduceItems_Some deductBalance_Inl validateItems_Some)

section \<open>The claims\<close>

text \<open>
  C1. When \<open>checkout\<close> fails with one of the errors it raises before the commit phase (the
  cart is empty, a product is expired, a product is out of stock, the balance does not
  cover the total), the customer's balance and the stock quantity of every product are
  what they were before the call; in fact the customer, the whole store and the cart
  are. The guard of \<open>deductBalance\<close> never fires inside \<open>checkout\<close>, and when the lines
  of the cart refer to distinct products, as in every cart built by \<open>add\<close>, these four
  errors are the only failures of \<open>checkout\<close>.
\<close>

theorem checkout_failure_before_commit:
  assumes "checkout now s = (s', Inl e)"
  shows "(e = EmptyCart \<or> (\<exists>n. e = ProductExpired n) \<or> (\<exists>n. e = OutOfStock n)
            \<or> e = BalanceInsufficient \<or> e = InsufficientBalance
          \<longrightarrow> balance (customer s') = balance (customer s)
              \<and> (\<forall>r. getQuantity (products s' r) = getQuantity (products s r))
              \<and> customer s' = customer s \<and> products s' = products s \<and> cart s' = cart s)
         \<and> (distinct (map getProduct (cart s))
          \<longrightarrow> (e = EmptyCart \<or> (\<exists>n. e = ProductExpired n) \<or> (\<exists>n. e = OutOfStock n)
                 \<or> e = BalanceInsufficient)
              \<and> balance (customer s') = balance (customer s)
              \<and> (\<forall>r. getQuantity (products s' r) = getQuantity (products s r))
              \<and> customer s' = customer s \<and> products s' = products s \<and> cart s' = cart s)"
proof -
  have 1: "balance (customer s') = balance (customer s)
              \<and> (\<forall>r. getQuantity (products s' r) = getQuantity (products s r))
              \<and> customer s' = customer s \<and> products s' = products s \<and> cart s' = cart s"
    if "e = EmptyCart \<or> (\<exists>n. e = ProductExpired n) \<or> (\<exists>n. e = OutOfStock n)
            \<or> e = BalanceInsufficient \<or> e = InsufficientBalance"
    using assms that
    by (auto simp: checkout_def Let_def deductBalance_def
        split: if_splits option.splits prod.splits sum.splits dest: reduceItems_Some)
  from 1 checkout_failure_distinct[OF assms] show ?thesis by blast
qed

theorem checkout_failure_before_commit_witness:
  "snd (checkout 0 (scenario 300 [CartItem 0 2, CartItem 1 1])) = Inl BalanceInsufficient
   \<and> distinct (map getProduct (cart (scenario 300 [CartItem 0 2, CartItem 1 1])))
   \<and> balance (customer (fst (checkout 0 (scenario 300 [CartItem 0 2, CartItem 1 1])))) = 300
   \<and> getQuantity (products (fst (checkout 0 (scenario 300 [CartItem 0 2, CartItem 1 1]))) 0) = 10
   \<and> getQuantity (products (fst (checkout 0 (scenario 300 [CartItem 0 2, CartItem 1 1]))) 1) = 15"
proof -
  let ?s = "scenario 300 [CartItem 0 2, CartItem 1 1]"
  have run: "checkout 0 ?s = (fst (checkout 0 ?s), Inl BalanceInsufficient)"
    unfolding scenario_checkout_300 by simp
  have d: "distinct (map getProduct (cart ?s))"
    by (simp add: scenario_def)
  have before: "balance (customer ?s) = 300"
    "getQuantity (products ?s 0) = 10" "getQuantity (products ?s 1) = 15"
    by (simp_all add: scenario_def catalog_def productA_def productB_def)
  have "balance (customer (fst (checkout 0 ?s))) = balance (customer ?s)
    \<and> (\<forall>r. getQuantity (products (fst (checkout 0 ?s)) r) = getQuantity (products ?s r))"
    using checkout_failure_before_commit [OF run] by blast
  with before run d show ?thesis by (metis snd_conv)
qed

text \<open>
  C2. The end-to-end scenario: with product A (price 100, stock 10, not shipped) and
  product B (price 150, stock 15, shipped, 0.7 kg), a cart built by adding two of A
  and one of B, and a balance of 1000, \<open>checkout\<close> succeeds at any time \<open>now\<close>; the
  subtotal is 350, the only shippable unit weighs 0.7 kg, the shipping fee is
  \<open>\<lceil>0.7 * 30\<rceil> = 21\<close>, computed on doubles as the source does, the amount is 371, the
  balance afterwards is 629 and the stocks are 8 and 14.
\<close>

theorem end_to_end_scenario:
  "add 0 2 (scenario 1000 []) = (scenario 1000 [CartItem 0 2], Inr ())
   \<and> add 1 1 (scenario 1000 [CartItem 0 2]) = (scenario 1000 [CartItem 0 2, CartItem 1 1], Inr ())
   \<and> snd (checkout now (scenario 1000 [CartItem 0 2, CartItem 1 1])) = Inr ()
   \<and> getSubtotal catalog [CartItem 0 2, CartItem 1 1] = 350
   \<and> collectShippable catalog [CartItem 0 2, CartItem 1 1] = [ShippableItem ''B'' (double_of (7 / 10))]
   \<and> fst (calculateShippingFee [ShippableItem ''B'' (double_of (7 / 10))]) = 21
   \<and> console (fst (checkout now (scenario 1000 [CartItem 0 2, CartItem 1 1])))
       = [ShipmentNotice, ShipmentItem ''B'' 700, TotalPackageWeight (double_of (7 / 10)),
          CheckoutReceipt, ReceiptItem 2 ''A'' 200, ReceiptItem 1 ''B'' 150, Rule,
          Subtotal 350, Shipping 21, Amount 371, BalanceAfterPayment 629]
   \<and> balance (customer (fst (checkout now (scenario 1000 [CartItem 0 2, CartItem 1 1])))) = 629
   \<and> getQuantity (products (fst (checkout now (scenario 1000 [CartItem 0 2, CartItem 1 1]))) 0) = 8
   \<and> getQuantity (products (fst (checkout now (scenario 1000 [CartItem 0 2, CartItem 1 1]))) 1) = 14"
proof -
  have a1: "add 0 2 (scenario 1000 []) = (scenario 1000 [CartItem 0 2], Inr ())"
    by (simp add: add_def scenario_def catalog_def productA_def)
  have a2: "add 1 1 (scenario 1000 [CartItem 0 2])
            = (scenario 1000 [CartItem 0 2, CartItem 1 1], Inr ())"
    by (simp add: add_def scenario_def catalog_def productB_def)
  have c: "getQuantity ((catalog(0 := NonExpirableProduct ''A'' 100 8 False 0,
                1 := NonExpirableProduct ''B'' 150 14 True (double_of (7 / 10)))) 0) = 8"
    "getQuantity ((catalog(0 := NonExpirableProduct ''A'' 100 8 False 0,
                1 := NonExpirableProduct ''B'' 150 14 True (double_of (7 / 10)))) 1) = 14"
    by simp_all
  show ?thesis
    unfolding scenario_checkout a1 a2 scenario_getSubtotal scenario_collectShippable
      scenario_calculateShippingFee fst_conv snd_conv state.simps Customer.simps c
    by simp
qed

text \<open>
  C3. A cart line of the specification has a positive quantity. For a product that has
  no line yet, \<open>add\<close> fails exactly when the requested quantity exceeds the stock of
  the product; for a product that already has a line (found by comparing references,
  not names) whose quantity is not negative, it fails exactly when the merged quantity
  does. The failure is one of the two errors of \<open>Cart.add\<close> and leaves the state, the
  cart included, unchanged. A success appends a line for a new product and replaces the
  quantity of the existing line by the merged quantity. Adding a product that has no
  line twice, with success, leaves one line for it, of quantity \<open>q1 + q2\<close>, and raises
  the subtotal by \<open>price * (q1 + q2)\<close>, which is the subtotal when the cart was empty;
  both calls succeed when \<open>q1\<close> and \<open>q2\<close> are not negative and \<open>q1 + q2\<close> does not
  exceed the stock.
\<close>

theorem add_exceeds_stock:
  "(product \<notin> getProduct ` set (cart s) \<longrightarrow>
      ((\<exists>e. snd (add product quantity s) = Inl e)
         \<longleftrightarrow> quantity > getQuantity (products s product))
      \<and> (snd (add product quantity s) = Inr () \<longrightarrow>
           fst (add product quantity s) = s\<lparr>cart := cart s @ [CartItem product quantity]\<rparr>))
   \<and> (findIndex (\<lambda>item. getProduct item = product) (cart s) = Some i
        \<and> 0 \<le> getItemQuantity (cart s ! i) \<longrightarrow>
      i < length (cart s) \<and> getProduct (cart s ! i) = product
      \<and> ((\<exists>e. snd (add product quantity s) = Inl e)
            \<longleftrightarrow> getItemQuantity (cart s ! i) + quantity > getQuantity (products s product))
      \<and> (snd (add product quantity s) = Inr () \<longrightarrow>
           fst (add product quantity s)
           = s\<lparr>cart := (cart s)[i := CartItem product (getItemQuantity (cart s ! i) + quantity)]\<rparr>))
   \<and> (snd (add product quantity s) = Inl e \<longrightarrow>
        fst (add product quantity s) = s \<and> (e = RequestedExceedsStock \<or> e = TotalExceedsStock))
   \<and> (product \<notin> getProduct ` set (cart s) \<and> snd (add product q1 s) = Inr ()
        \<and> snd (add product q2 (fst (add product q1 s))) = Inr () \<longrightarrow>
        cart (fst (add product q2 (fst (add product q1 s))))
          = cart s @ [CartItem product (q1 + q2)]
        \<and> referencing product (cart (fst (add product q2 (fst (add product q1 s)))))
          = [CartItem product (q1 + q2)]
        \<and> getSubtotal (products (fst (add product q2 (fst (add product q1 s)))))
             (cart (fst (add product q2 (fst (add product q1 s)))))
          = getSubtotal (products s) (cart s)
            + getPrice (products s product) * of_int (q1 + q2)
        \<and> (cart s = [] \<longrightarrow>
             getSubtotal (products (fst (add product q2 (fst (add product q1 s)))))
               (cart (fst (add product q2 (fst (add product q1 s)))))
             = getPrice (products s product) * of_int (q1 + q2)))
   \<and> (product \<notin> getProduct ` set (cart s) \<and> 0 \<le> q1 \<and> 0 \<le> q2
        \<and> q1 + q2 \<le> getQuantity (products s product) \<longrightarrow>
        snd (add product q1 s) = Inr ()
        \<and> snd (add product q2 (fst (add product q1 s))) = Inr ())"
proof -
  have 1: "((\<exists>e. snd (add product quantity s) = Inl e)
         \<longleftrightarrow> quantity > getQuantity (products s product))
      \<and> (snd (add product quantity s) = Inr () \<longrightarrow>
           fst (add product quantity s) = s\<lparr>cart := cart s @ [CartItem product quantity]\<rparr>)"
    if "product \<notin> getProduct ` set (cart s)"
    by (simp add: add_absent[OF that])
  have 2: "i < length (cart s) \<and> getProduct (cart s ! i) = product
      \<and> ((\<exists>e. snd (add product quantity s) = Inl e)
            \<longleftrightarrow> getItemQuantity (cart s ! i) + quantity > getQuantity (products s product))
      \<and> (snd (add product quantity s) = Inr () \<longrightarrow>
           fst (add product quantity s)
           = s\<lparr>cart := (cart s)[i := CartItem product (getItemQuantity (cart s ! i) + quantity)]\<rparr>)"
    if "findIndex (\<lambda>item. getProduct item = product) (cart s) = Some i"
      and "0 \<le> getItemQuantity (cart s ! i)"
    using findIndex_Some[OF that(1)] that(2) by (simp add: add_present[OF that(1)])
  have 3: "snd (add product quantity s) = Inl e \<longrightarrow>
        fst (add product quantity s) = s \<and> (e = RequestedExceedsStock \<or> e = TotalExceedsStock)"
    using add_failure by blast
  have 4: "cart (fst (add product q2 (fst (add product q1 s))))
          = cart s @ [CartItem product (q1 + q2)]
        \<and> referencing product (cart (fst (add product q2 (fst (add product q1 s)))))
          = [CartItem product (q1 + q2)]
        \<and> getSubtotal (products (fst (add product q2 (fst (add product q1 s)))))
             (cart (fst (add product q2 (fst (add product q1 s)))))
          = getSubtotal (products s) (cart s)
            + getPrice (products s product) * of_int (q1 + q2)
        \<and> (cart s = [] \<longrightarrow>
             getSubtotal (products (fst (add product q2 (fst (add product q1 s)))))
               (cart (fst (add product q2 (fst (add product q1 s)))))
             = getPrice (products s product) * of_int (q1 + q2))"
    if absent: "product \<notin> getProduct ` set (cart s)" and ok: "snd (add product q1 s) = Inr ()"
        "snd (add product q2 (fst (add product q1 s))) = Inr ()"
  proof -
    from absent have "filter (\<lambda>item. getProduct item = product) (cart s) = []"
      by (auto simp: filter_empty_conv)
    then show ?thesis
      unfolding add_twice[OF absent ok]
      by (simp add: referencing_def getTotalPrice_def getSubtotal_def)
  qed
  have 5: "snd (add product q1 s) = Inr ()
        \<and> snd (add product q2 (fst (add product q1 s))) = Inr ()"
    if absent: "product \<notin> getProduct ` set (cart s)" and "0 \<le> q1" "0 \<le> q2"
      "q1 + q2 \<le> getQuantity (products s product)"
  proof -
    let ?s1 = "s\<lparr>cart := cart s @ [CartItem product q1]\<rparr>"
    from that have a: "add product q1 s = (?s1, Inr ())"
      by (simp add: add_absent)
    have i: "findIndex (\<lambda>item. getProduct item = product) (cart ?s1) = Some (length (cart s))"
      using findIndex_append_new[OF absent] by simp
    from that show ?thesis
      unfolding a fst_conv snd_conv add_present[OF i] by simp
  qed
  from 1 2 3 4 5 show ?thesis by blast
qed

theorem add_exceeds_stock_witness:
  "1 \<notin> getProduct ` set (cart (scenario 1000 []))
   \<and> 16 > getQuantity (products (scenario 1000 []) 1)
   \<and> (\<exists>e. snd (add 1 16 (scenario 1000 [])) = Inl e
          \<and> fst (add 1 16 (scenario 1000 [])) = scenario 1000 []
          \<and> (e = RequestedExceedsStock \<or> e = TotalExceedsStock))
   \<and> findIndex (\<lambda>item. getProduct item = 0) (cart (scenario 1000 [CartItem 0 8])) = Some 0
   \<and> 0 \<le> getItemQuantity (cart (scenario 1000 [CartItem 0 8]) ! 0)
   \<and> getItemQuantity (cart (scenario 1000 [CartItem 0 8]) ! 0) + 3
       > getQuantity (products (scenario 1000 [CartItem 0 8]) 0)
   \<and> (\<exists>e. snd (add 0 3 (scenario 1000 [CartItem 0 8])) = Inl e)
   \<and> getName (products (scenario 1000 [CartItem 0 2]) 2)
       = getName (products (scenario 1000 [CartItem 0 2]) 0)
   \<and> 2 \<notin> getProduct ` set (cart (scenario 1000 [CartItem 0 2]))
   \<and> \<not> 3 > getQuantity (products (scenario 1000 [CartItem 0 2]) 2)
   \<and> cart (fst (add 2 3 (scenario 1000 [CartItem 0 2]))) = [CartItem 0 2, CartItem 2 3]
   \<and> 0 \<notin> getProduct ` set (cart (scenario 1000 []))
   \<and> (0::int) \<le> 2 \<and> (0::int) \<le> 3 \<and> 2 + 3 \<le> getQuantity (products (scenario 1000 []) 0)
   \<and> snd (add 0 2 (scenario 1000 [])) = Inr ()
   \<and> snd (add 0 3 (fst (add 0 2 (scenario 1000 [])))) = Inr ()
   \<and> cart (fst (add 0 3 (fst (add 0 2 (scenario 1000 []))))) = [CartItem 0 (2 + 3)]
   \<and> getSubtotal (products (fst (add 0 3 (fst (add 0 2 (scenario 1000 []))))))
        (cart (fst (add 0 3 (fst (add 0 2 (scenario 1000 []))))))
      = getPrice (products (scenario 1000 []) 0) * of_int (2 + 3)"
proof -
  let ?e = "scenario 1000 []" and ?t = "scenario 1000 [CartItem 0 8]"
  let ?u = "scenario 1000 [CartItem 0 2]"
  have a1: "1 \<notin> getProduct ` set (cart ?e)" and a2: "16 > getQuantity (products ?e 1)"
    by (simp_all add: scenario_def catalog_def productB_def)
  from a1 a2 add_exceeds_stock [of 1 ?e 16]
  obtain e where e: "snd (add 1 16 ?e) = Inl e" by blast
  with add_exceeds_stock [of 1 ?e 16 _ e]
  have a3: "fst (add 1 16 ?e) = ?e \<and> (e = RequestedExceedsStock \<or> e = TotalExceedsStock)"
    by blast
  have b1: "findIndex (\<lambda>item. getProduct item = 0) (cart ?t) = Some 0"
    and b2: "0 \<le> getItemQuantity (cart ?t ! 0)"
    and b3: "getItemQuantity (cart ?t ! 0) + 3 > getQuantity (products ?t 0)"
    by (simp_all add: scenario_def catalog_def productA_def)
  from b1 b2 b3 add_exceeds_stock [of 0 ?t 3 0]
  have b4: "\<exists>e. snd (add 0 3 ?t) = Inl e" by blast
  have d1: "getName (products ?u 2) = getName (products ?u 0)"
    and d2: "2 \<notin> getProduct ` set (cart ?u)"
    and d3: "\<not> 3 > getQuantity (products ?u 2)"
    and d4: "cart (?u\<lparr>cart := cart ?u @ [CartItem 2 3]\<rparr>) = [CartItem 0 2, CartItem 2 3]"
    by (simp_all add: scenario_def catalog_def productA_def)
  from d2 d3 add_exceeds_stock [of 2 ?u 3]
  have "\<not> (\<exists>e. snd (add 2 3 ?u) = Inl e)"
    by blast
  then have "snd (add 2 3 ?u) = Inr ()"
    by (cases "snd (add 2 3 ?u)") simp_all
  with d2 add_exceeds_stock [of 2 ?u 3]
  have "fst (add 2 3 ?u) = ?u\<lparr>cart := cart ?u @ [CartItem 2 3]\<rparr>"
    by blast
  with d4 have d5: "cart (fst (add 2 3 ?u)) = [CartItem 0 2, CartItem 2 3]"
    by (simp only:)
  have c1: "0 \<notin> getProduct ` set (cart ?e)" and c2: "(0::int) \<le> 2" "(0::int) \<le> 3"
    and c3: "2 + 3 \<le> getQuantity (products ?e 0)" and c4: "cart ?e = []"
    by (simp_all add: scenario_def catalog_def productA_def)
  from c1 c2 c3 add_exceeds_stock [of 0 ?e _ _ _ 2 3]
  have c5: "snd (add 0 2 ?e) = Inr ()" "snd (add 0 3 (fst (add 0 2 ?e))) = Inr ()"
    by blast+
  with c1 c4 add_exceeds_stock [of 0 ?e _ _ _ 2 3]
  have c6: "cart (fst (add 0 3 (fst (add 0 2 ?e)))) = cart ?e @ [CartItem 0 (2 + 3)]"
    and c7: "getSubtotal (products (fst (add 0 3 (fst (add 0 2 ?e)))))
        (cart (fst (add 0 3 (fst (add 0 2 ?e)))))
      = getPrice (products ?e 0) * of_int (2 + 3)"
    by blast+
  from c6 c4 have c8: "cart (fst (add 0 3 (fst (add 0 2 ?e)))) = [CartItem 0 (2 + 3)]"
    by (simp only: append_Nil)
  from a1 a2 e a3 b1 b2 b3 b4 d1 d2 d3 d5 c1 c2 c3 c5 c7 c8 show ?thesis by blast
qed





text \<open>
  C6. \<open>reduceQuantity\<close> fails when the amount exceeds the stock and otherwise subtracts
  it, leaving a stock that is not negative; \<open>deductBalance\<close> fails when the amount
  exceeds the balance and otherwise subtracts it, leaving a balance that is not
  negative; \<open>add\<close> touches neither the store nor the customer; and from a state where
  every stock and the balance are non-negative, \<open>checkout\<close> leaves a state where they
  are, whatever its outcome.
\<close>

theorem nonnegativity_preserved:
  "(amount > getQuantity p \<longrightarrow> reduceQuantity p amount = Inl NotEnoughStock)
   \<and> (\<not> amount > getQuantity p \<longrightarrow>
        (\<exists>p'. reduceQuantity p amount = Inr p' \<and> getQuantity p' = getQuantity p - amount
              \<and> 0 \<le> getQuantity p'))
   \<and> (debit > balance c \<longrightarrow> deductBalance c debit = Inl InsufficientBalance)
   \<and> (\<not> debit > balance c \<longrightarrow>
        (\<exists>c'. deductBalance c debit = Inr c' \<and> balance c' = balance c - debit
              \<and> 0 \<le> balance c'))
   \<and> products (fst (add product quantity s)) = products s
   \<and> customer (fst (add product quantity s)) = customer s
   \<and> ((\<forall>r. 0 \<le> getQuantity (products s r)) \<and> 0 \<le> balance (customer s) \<longrightarrow>
        (\<forall>r. 0 \<le> getQuantity (products (fst (checkout now s)) r))
        \<and> 0 \<le> balance (customer (fst (checkout now s))))"
proof -
  have 1: "amount > getQuantity p \<longrightarrow> reduceQuantity p amount = Inl NotEnoughStock"
    by (cases p) simp_all
  have 2: "\<not> amount > getQuantity p \<longrightarrow>
        (\<exists>p'. reduceQuantity p amount = Inr p' \<and> getQuantity p' = getQuantity p - amount
              \<and> 0 \<le> getQuantity p')"
    by (cases p) simp_all
  have 3: "debit > balance c \<longrightarrow> deductBalance c debit = Inl InsufficientBalance"
    by (simp add: deductBalance_def)
  have 4: "\<not> debit > balance c \<longrightarrow>
        (\<exists>c'. deductBalance c debit = Inr c' \<and> balance c' = balance c - debit
              \<and> 0 \<le> balance c')"
    by (simp add: deductBalance_def)
  have 5: "products (fst (add product quantity s)) = products s
     \<and> customer (fst (add product quantity s)) = customer s"
    by (simp add: add_def Let_def split: option.splits)
  from 1 2 3 4 5 checkout_nonneg[of s now] show ?thesis by blast
qed

theorem nonnegativity_preserved_witness:
  "11 > getQuantity productA \<and> reduceQuantity productA 11 = Inl NotEnoughStock
   \<and> \<not> 2 > getQuantity productA
   \<and> (\<exists>p'. reduceQuantity productA 2 = Inr p' \<and> getQuantity p' = getQuantity productA - 2
           \<and> 0 \<le> getQuantity p')
   \<and> 371 > balance \<lparr>name = ''Customer'', balance = 300\<rparr>
   \<and> deductBalance \<lparr>name = ''Customer'', balance = 300\<rparr> 371 = Inl InsufficientBalance
   \<and> \<not> 371 > balance \<lparr>name = ''Customer'', balance = 1000\<rparr>
   \<and> (\<exists>c'. deductBalance \<lparr>name = ''Customer'', balance = 1000\<rparr> 371 = Inr c'
           \<and> balance c' = balance \<lparr>name = ''Customer'', balance = 1000\<rparr> - 371
           \<and> 0 \<le> balance c')
   \<and> (\<forall>r. 0 \<le> getQuantity (products (scenario 1000 [CartItem 0 2, CartItem 1 1]) r))
   \<and> 0 \<le> balance (customer (scenario 1000 [CartItem 0 2, CartItem 1 1]))
   \<and> (\<forall>r. 0 \<le> getQuantity (products (fst (checkout 0 (scenario 1000 [CartItem 0 2, CartItem 1 1]))) r))
   \<and> 0 \<le> balance (customer (fst (checkout 0 (scenario 1000 [CartItem 0 2, CartItem 1 1]))))"
proof -
  let ?s = "scenario 1000 [CartItem 0 2, CartItem 1 1]"
  have h1: "11 > getQuantity productA" and h2: "\<not> 2 > getQuantity productA"
    by (simp_all add: productA_def)
  have h3: "371 > balance \<lparr>name = ''Customer'', balance = 300\<rparr>"
    and h4: "\<not> 371 > balance \<lparr>name = ''Customer'', balance = 1000\<rparr>"
    by simp_all
  have h5: "(\<forall>r. 0 \<le> getQuantity (products ?s r)) \<and> 0 \<le> balance (customer ?s)"
    by (simp add: scenario_def catalog_def productA_def productB_def)
  from h1 h2 h3 h4 h5
    nonnegativity_preserved [where amount = 11 and p = productA and debit = 371
      and c = "\<lparr>name = ''Customer'', balance = 300\<rparr>" and s = ?s and now = 0]
    nonnegativity_preserved [where amount = 2 and p = productA and debit = 371
      and c = "\<lparr>name = ''Customer'', balance = 1000\<rparr>" and s = ?s and now = 0]
  show ?thesis by blast
qed

text \<open>
  C7. The claim fails on doubles. One unit of 0.1 kg costs 3, which is less than the
  exact product of its weight, the double nearest to 0.1, and the rate. And the units
  0.1, 0.2, 0.3 kg cost 19 in this order and 18 in the reverse order, with the same
  exact total weight.
\<close>

theorem calculateShippingFee_below_exact_fee:
  "fst (calculateShippingFee [ShippableItem ''C'' (double_of (1 / 10))]) = 3
   \<and> 3 < sum_list (map getShipWeight [ShippableItem ''C'' (double_of (1 / 10))])
           * SHIPPING_RATE_PER_KG
   \<and> sum_list (map getShipWeight [ShippableItem ''C'' (double_of (1 / 10)),
         ShippableItem ''D'' (double_of (1 / 5)), ShippableItem ''E'' (double_of (3 / 10))])
       \<le> sum_list (map getShipWeight [ShippableItem ''E'' (double_of (3 / 10)),
         ShippableItem ''D'' (double_of (1 / 5)), ShippableItem ''C'' (double_of (1 / 10))])
   \<and> fst (calculateShippingFee [ShippableItem ''C'' (double_of (1 / 10)),
         ShippableItem ''D'' (double_of (1 / 5)), ShippableItem ''E'' (double_of (3 / 10))]) = 19
   \<and> fst (calculateShippingFee [ShippableItem ''E'' (double_of (3 / 10)),
         ShippableItem ''D'' (double_of (1 / 5)), ShippableItem ''C'' (double_of (1 / 10))]) = 18"
  unfolding double_of_literals
  apply (simp add: calculateShippingFee_def totalWeight_def SHIPPING_RATE_PER_KG_def)
  apply (simp add: double_of_def normalise.simps rne_def)
  done

text \<open>
  C7, amended. The shipping fee is monotonically non-decreasing in the total weight
  that \<open>calculateShippingFee\<close> computes, the sum of the weights added from the left in
  double arithmetic; it is an integer, and it is at least the product of that total
  weight and the rate as computed in double arithmetic.
\<close>

theorem calculateShippingFee_monotone:
  "(totalWeight xs \<le> totalWeight ys
      \<longrightarrow> fst (calculateShippingFee xs) \<le> fst (calculateShippingFee ys))
   \<and> fst (calculateShippingFee xs) \<in> \<int>
   \<and> double_of (totalWeight xs * SHIPPING_RATE_PER_KG) \<le> fst (calculateShippingFee xs)"
proof -
  have "\<lceil>double_of (totalWeight xs * SHIPPING_RATE_PER_KG)\<rceil>
        \<le> \<lceil>double_of (totalWeight ys * SHIPPING_RATE_PER_KG)\<rceil>"
    if "totalWeight xs \<le> totalWeight ys"
  proof -
    from that have "totalWeight xs * SHIPPING_RATE_PER_KG \<le> totalWeight ys * SHIPPING_RATE_PER_KG"
      by (simp add: SHIPPING_RATE_PER_KG_def)
    then show ?thesis by (intro ceiling_mono double_of_mono)
  qed
  then show ?thesis
    by (simp add: fee_value)
qed

theorem calculateShippingFee_monotone_witness:
  "totalWeight [ShippableItem ''B'' (double_of (7 / 10))]
     \<le> totalWeight [ShippableItem ''B'' (double_of (7 / 10)),
                     ShippableItem ''D'' (double_of (1 / 5))]
   \<and> fst (calculateShippingFee [ShippableItem ''B'' (double_of (7 / 10))])
     \<le> fst (calculateShippingFee [ShippableItem ''B'' (double_of (7 / 10)),
                                   ShippableItem ''D'' (double_of (1 / 5))])"
proof -
  have "totalWeight [ShippableItem ''B'' (double_of (7 / 10))]
     \<le> totalWeight [ShippableItem ''B'' (double_of (7 / 10)),
                     ShippableItem ''D'' (double_of (1 / 5))]"
    unfolding double_of_literals
    apply (simp add: totalWeight_def)
    apply (simp add: double_of_def normalise.simps rne_def)
    done
  with calculateShippingFee_monotone
    [of "[ShippableItem ''B'' (double_of (7 / 10))]"
        "[ShippableItem ''B'' (double_of (7 / 10)), ShippableItem ''D'' (double_of (1 / 5))]"]
  show ?thesis by blast
qed




text \<open>
  C9. The claim fails when the product already has a line: with a line of 8 for
  product A (stock 10), \<open>add 0 3\<close> fails although 3 does not exceed the stock, since the
  merged quantity 11 does.
\<close>

theorem add_within_stock_fails_on_merge:
  "add 0 8 (scenario 1000 []) = (scenario 1000 [CartItem 0 8], Inr ())
   \<and> 3 \<le> getQuantity (products (scenario 1000 [CartItem 0 8]) 0)
   \<and> add 0 3 (scenario 1000 [CartItem 0 8])
       = (scenario 1000 [CartItem 0 8], Inl TotalExceedsStock)"
  by (simp add: add_def scenario_def catalog_def productA_def)

text \<open>
  C9, amended. \<open>add\<close> does not require a positive quantity. For every integer quantity
  that does not exceed the stock of the product, zero and negative ones included,
  \<open>add\<close> succeeds when the product has no line yet, and appends a line carrying that
  quantity; when the product has a line it succeeds when the merged quantity does not
  exceed the stock either, and that line then carries the merged quantity. After a
  success the cart is not empty and \<open>checkout\<close> does not fail with \<open>EmptyCart\<close>.
\<close>

theorem add_accepts_any_quantity_within_stock:
  "quantity \<le> getQuantity (products s product) \<longrightarrow>
     (product \<notin> getProduct ` set (cart s) \<longrightarrow>
        add product quantity s = (s\<lparr>cart := cart s @ [CartItem product quantity]\<rparr>, Inr ()))
     \<and> (findIndex (\<lambda>item. getProduct item = product) (cart s) = Some i
          \<and> getItemQuantity (cart s ! i) + quantity \<le> getQuantity (products s product) \<longrightarrow>
        add product quantity s
        = (s\<lparr>cart := (cart s)[i := CartItem product (getItemQuantity (cart s ! i) + quantity)]\<rparr>,
           Inr ()))
     \<and> (snd (add product quantity s) = Inr () \<longrightarrow>
          cart (fst (add product quantity s)) \<noteq> []
          \<and> \<not> isEmpty (cart (fst (add product quantity s)))
          \<and> snd (checkout now (fst (add product quantity s))) \<noteq> Inl EmptyCart)"
proof
  assume q: "quantity \<le> getQuantity (products s product)"
  have 1: "add product quantity s = (s\<lparr>cart := cart s @ [CartItem product quantity]\<rparr>, Inr ())"
    if "product \<notin> getProduct ` set (cart s)"
    using q by (simp add: add_absent[OF that])
  have 2: "add product quantity s
        = (s\<lparr>cart := (cart s)[i := CartItem product (getItemQuantity (cart s ! i) + quantity)]\<rparr>,
           Inr ())"
    if "findIndex (\<lambda>item. getProduct item = product) (cart s) = Some i"
      and "getItemQuantity (cart s ! i) + quantity \<le> getQuantity (products s product)"
    using q that(2) by (simp add: add_present[OF that(1)])
  have 3: "cart (fst (add product quantity s)) \<noteq> []
          \<and> \<not> isEmpty (cart (fst (add product quantity s)))
          \<and> snd (checkout now (fst (add product quantity s))) \<noteq> Inl EmptyCart"
    if ok: "snd (add product quantity s) = Inr ()"
  proof -
    have ne: "cart (fst (add product quantity s)) \<noteq> []"
    proof (cases "findIndex (\<lambda>item. getProduct item = product) (cart s)")
      case None
      then have "product \<notin> getProduct ` set (cart s)" by (auto simp: findIndex_None)
      with ok show ?thesis by (simp add: add_absent split: if_splits)
    next
      case (Some j)
      from findIndex_Some[OF Some] have "cart s \<noteq> []" by auto
      with ok show ?thesis by (simp add: add_present[OF Some] split: if_splits)
    qed
    with checkout_nonempty_not_EmptyCart[OF ne] show ?thesis by (simp add: isEmpty_def)
  qed
  from 1 2 3 show "(product \<notin> getProduct ` set (cart s) \<longrightarrow>
        add product quantity s = (s\<lparr>cart := cart s @ [CartItem product quantity]\<rparr>, Inr ()))
     \<and> (findIndex (\<lambda>item. getProduct item = product) (cart s) = Some i
          \<and> getItemQuantity (cart s ! i) + quantity \<le> getQuantity (products s product) \<longrightarrow>
        add product quantity s
        = (s\<lparr>cart := (cart s)[i := CartItem product (getItemQuantity (cart s ! i) + quantity)]\<rparr>,
           Inr ()))
     \<and> (snd (add product quantity s) = Inr () \<longrightarrow>
          cart (fst (add product quantity s)) \<noteq> []
          \<and> \<not> isEmpty (cart (fst (add product quantity s)))
          \<and> snd (checkout now (fst (add product quantity s))) \<noteq> Inl EmptyCart)"
    by blast
qed

theorem add_accepts_any_quantity_within_stock_witness:
  "0 \<le> getQuantity (products (scenario 1000 []) 0)
   \<and> 0 \<notin> getProduct ` set (cart (scenario 1000 []))
   \<and> add 0 0 (scenario 1000 []) = (scenario 1000 [CartItem 0 0], Inr ())
   \<and> snd (checkout 0 (fst (add 0 0 (scenario 1000 [])))) \<noteq> Inl EmptyCart
   \<and> - 3 \<le> getQuantity (products (scenario 1000 []) 0)
   \<and> add 0 (- 3) (scenario 1000 []) = (scenario 1000 [CartItem 0 (- 3)], Inr ())
   \<and> snd (checkout 0 (fst (add 0 (- 3) (scenario 1000 [])))) \<noteq> Inl EmptyCart
   \<and> - 3 \<le> getQuantity (products (scenario 1000 [CartItem 0 2]) 0)
   \<and> findIndex (\<lambda>item. getProduct item = 0) (cart (scenario 1000 [CartItem 0 2])) = Some 0
   \<and> getItemQuantity (cart (scenario 1000 [CartItem 0 2]) ! 0) + (- 3)
       \<le> getQuantity (products (scenario 1000 [CartItem 0 2]) 0)
   \<and> add 0 (- 3) (scenario 1000 [CartItem 0 2]) = (scenario 1000 [CartItem 0 (- 1)], Inr ())"
proof -
  let ?e = "scenario 1000 []" and ?t = "scenario 1000 [CartItem 0 2]"
  have a: "0 \<le> getQuantity (products ?e 0)" "- 3 \<le> getQuantity (products ?e 0)"
    "0 \<notin> getProduct ` set (cart ?e)"
    by (simp_all add: scenario_def catalog_def productA_def)
  have u: "?e\<lparr>cart := cart ?e @ [CartItem 0 q]\<rparr> = scenario 1000 [CartItem 0 q]" for q
    by (simp add: scenario_def)
  note z = add_accepts_any_quantity_within_stock [of 0 ?e 0 _ 0]
  from a z have z1: "add 0 0 ?e = (scenario 1000 [CartItem 0 0], Inr ())"
    unfolding u by blast
  then have "snd (add 0 0 ?e) = Inr ()"
    by (simp only: snd_conv)
  with a z have z2: "snd (checkout 0 (fst (add 0 0 ?e))) \<noteq> Inl EmptyCart"
    by blast
  note n = add_accepts_any_quantity_within_stock [of "- 3" ?e 0 _ 0]
  from a n have n1: "add 0 (- 3) ?e = (scenario 1000 [CartItem 0 (- 3)], Inr ())"
    unfolding u by blast
  then have "snd (add 0 (- 3) ?e) = Inr ()"
    by (simp only: snd_conv)
  with a n have n2: "snd (checkout 0 (fst (add 0 (- 3) ?e))) \<noteq> Inl EmptyCart"
    by blast
  have b: "- 3 \<le> getQuantity (products ?t 0)"
    "findIndex (\<lambda>item. getProduct item = 0) (cart ?t) = Some 0"
    "getItemQuantity (cart ?t ! 0) + (- 3) \<le> getQuantity (products ?t 0)"
    by (simp_all add: scenario_def catalog_def productA_def)
  have v: "?t\<lparr>cart := (cart ?t)[0 := CartItem 0 (getItemQuantity (cart ?t ! 0) + (- 3))]\<rparr>
           = scenario 1000 [CartItem 0 (- 1)]"
    by (simp add: scenario_def)
  from b add_accepts_any_quantity_within_stock [of "- 3" ?t 0 0 0]
  have m: "add 0 (- 3) ?t = (scenario 1000 [CartItem 0 (- 1)], Inr ())"
    unfolding v by blast
  from a z1 z2 n1 n2 b m show ?thesis by blast
qed



end
